theory Spec2Isabelle
  imports Complex_Main
begin

section \<open>The event list (EventList.jsx)\<close>

text \<open>
  The event record of the API and the three pieces of React state of the
  \<^verbatim>\<open>EventList\<close> component. The component's \<^verbatim>\<open>error\<close> state is called
  \<open>listError\<close> here, because the player component below has an \<^verbatim>\<open>error\<close>
  state of its own.
\<close>

record event =
  exchange :: string
  symbol :: string
  companyName :: string
  year :: int
  quarter :: int
  eventDate :: string
  streamingUrl :: "string option"

record eventList =
  events :: "event list"
  loading :: bool
  listError :: "string option"

text \<open>
  What \<^verbatim>\<open>await response.json()\<close> gives: the promise rejects with a message
  (the body is not JSON), or it resolves to \<^verbatim>\<open>data\<close>. Of \<^verbatim>\<open>data\<close> the code
  only reads \<^verbatim>\<open>data.events\<close>: that read throws a TypeError when \<^verbatim>\<open>data\<close> is
  \<^verbatim>\<open>null\<close>; otherwise it is a truthy value (\<open>Some\<close>, the array) or a falsy or
  missing one (\<open>None\<close>).
\<close>

datatype body = Unparsable string | Null | Data "event list option"

record response =
  resp_status :: nat
  resp_body :: body

text \<open>\<^verbatim>\<open>await fetch(API_URL)\<close>: the promise rejects (network error), or a response arrives.\<close>

datatype fetched = Rejected string | Response response

text \<open>\<^verbatim>\<open>response.ok\<close> of the Fetch API: the status is in 200..299.\<close>

definition ok :: "response \<Rightarrow> bool" where
  "ok r = (200 \<le> resp_status r \<and> resp_status r \<le> 299)"

text \<open>The decimal digits of a number, as the template literal prints \<^verbatim>\<open>response.status\<close>.\<close>

fun string_of_nat :: "nat \<Rightarrow> string" where
  "string_of_nat n =
     (if n < 10 then [char_of (48 + n)]
      else string_of_nat (n div 10) @ [char_of (48 + n mod 10)])"

text \<open>The message of the TypeError that reading \<^verbatim>\<open>null.events\<close> throws (V8's wording).\<close>

definition nullReadMessage :: string where
  "nullReadMessage = ''Cannot read properties of null (reading 'events')''"

text \<open>
  \<^verbatim>\<open>fetchEvents\<close>, run to completion on the outcome of the request:
  \<^verbatim>\<open>try { setLoading(true); setError(null); ...; setEvents(data.events || []) }
  catch (err) { setError(err.message) } finally { setLoading(false) }\<close>.
\<close>

definition fetchEvents :: "fetched \<Rightarrow> eventList \<Rightarrow> eventList" where
  "fetchEvents f s =
     (let s1 = s\<lparr>loading := True, listError := None\<rparr>;
          s2 = (case f of
                  Rejected msg \<Rightarrow> s1\<lparr>listError := Some msg\<rparr>
                | Response r \<Rightarrow>
                    if \<not> ok r
                    then s1\<lparr>listError := Some (''HTTP error! status: '' @ string_of_nat (resp_status r))\<rparr>
                    else (case resp_body r of
                            Unparsable msg \<Rightarrow> s1\<lparr>listError := Some msg\<rparr>
                          | Null \<Rightarrow> s1\<lparr>listError := Some nullReadMessage\<rparr>
                          | Data es \<Rightarrow> s1\<lparr>events := (case es of Some l \<Rightarrow> l | None \<Rightarrow> [])\<rparr>))
      in s2\<lparr>loading := False\<rparr>)"

text \<open>A fetch fails when control reaches the \<^verbatim>\<open>catch\<close> block.\<close>

definition failed :: "fetched \<Rightarrow> bool" where
  "failed f =
     (case f of
        Rejected msg \<Rightarrow> True
      | Response r \<Rightarrow>
          \<not> ok r \<or> (case resp_body r of Unparsable msg \<Rightarrow> True | Null \<Rightarrow> True | Data es \<Rightarrow> False))"

section \<open>The stream player (StreamPlayer.jsx)\<close>

subsection \<open>The browser, the video element and the hls.js instance\<close>

datatype status = Disconnected | Connecting | Connected | Error

text \<open>
  A JavaScript number, as far as the player handles one: the volume is passed
  on unchanged, so a finite double is modelled by the real it denotes.
\<close>

datatype number = Num real | NaN | PosInfinity | NegInfinity

text \<open>
  The \<^verbatim>\<open><video>\<close> element: its \<^verbatim>\<open>paused\<close> flag, its \<^verbatim>\<open>volume\<close>, its
  \<^verbatim>\<open>src\<close> attribute (\<open>None\<close> while never assigned) and the number of
  \<^verbatim>\<open>loadedmetadata\<close>/\<^verbatim>\<open>error\<close> listener pairs that \<^verbatim>\<open>connectStream\<close> has
  added to it on the native path (the listeners are never removed).
\<close>

record video =
  paused :: bool
  vvolume :: real
  src :: "string option"
  listeners :: nat

definition newVideo :: video where
  "newVideo = \<lparr>paused = True, vvolume = 1, src = None, listeners = 0\<rparr>"

text \<open>
  An \<^verbatim>\<open>Hls\<close> instance: the argument of \<^verbatim>\<open>loadSource\<close>, the element given to
  \<^verbatim>\<open>attachMedia\<close> (the same element the two handlers close over) and whether
  \<^verbatim>\<open>destroy\<close> has been called on it. The options given to the constructor
  and the console output of the handlers play no part.
\<close>

record hls =
  source :: "string option"
  media :: nat
  destroyed :: bool

datatype hlsEvent = MANIFEST_PARSED | ERROR

text \<open>Every call the component makes on an engine instance or on a video element, in order.\<close>

datatype call =
    NewHls nat
  | LoadSource nat "string option"
  | AttachMedia nat nat
  | On nat hlsEvent
  | StartLoad nat
  | RecoverMediaError nat
  | Destroy nat
  | Play nat
  | Pause nat
  | SetSrc nat string
  | AssignVolume nat number
  | AddEventListener nat string

fun engineCall :: "call \<Rightarrow> bool" where
  "engineCall (NewHls h) = True"
| "engineCall (LoadSource h u) = True"
| "engineCall (AttachMedia h v) = True"
| "engineCall (On h e) = True"
| "engineCall (StartLoad h) = True"
| "engineCall (RecoverMediaError h) = True"
| "engineCall (Destroy h) = True"
| "engineCall c = False"

text \<open>
  \<^verbatim>\<open>Hls.isSupported()\<close> and \<^verbatim>\<open>video.canPlayType(type)\<close> are answered by the
  browser.
\<close>

record browser =
  isSupported :: bool
  canPlayType :: "string \<Rightarrow> string"

text \<open>
  The component: its props, its two refs, its four pieces of React state, the
  video elements and engine instances created so far (a ref holds an index),
  and the log of the calls made (\<open>calls\<close> is not program state).
\<close>

record player =
  event :: "event option"
  streamUrl :: "string option"
  videoRef :: "nat option"
  hlsRef :: "nat option"
  isPlaying :: bool
  status :: status
  error :: "string option"
  volume :: number
  videos :: "video list"
  engines :: "hls list"
  calls :: "call list"

definition initial :: player where
  "initial = \<lparr>event = None, streamUrl = None, videoRef = None, hlsRef = None,
     isPlaying = False, status = Disconnected, error = None, volume = Num 1,
     videos = [], engines = [], calls = []\<rparr>"

text \<open>The program state of a component: everything but the log.\<close>

definition state :: "player \<Rightarrow> player" where
  "state s = s\<lparr>calls := []\<rparr>"

definition logCall :: "call \<Rightarrow> player \<Rightarrow> player" where
  "logCall c s = s\<lparr>calls := calls s @ [c]\<rparr>"

definition updVideo :: "nat \<Rightarrow> (video \<Rightarrow> video) \<Rightarrow> player \<Rightarrow> player" where
  "updVideo v f s = s\<lparr>videos := (videos s)[v := f (videos s ! v)]\<rparr>"

text \<open>
  \<^verbatim>\<open>video.play()\<close>, \<^verbatim>\<open>video.pause()\<close> and \<^verbatim>\<open>video.src = u\<close>. The component
  ignores the promise that \<^verbatim>\<open>play()\<close> returns; here \<^verbatim>\<open>play()\<close> is taken to
  start playback, so that \<^verbatim>\<open>paused\<close> becomes false.
\<close>

definition play :: "nat \<Rightarrow> player \<Rightarrow> player" where
  "play v s = logCall (Play v) (updVideo v (\<lambda>x. x\<lparr>paused := False\<rparr>) s)"

definition pause :: "nat \<Rightarrow> player \<Rightarrow> player" where
  "pause v s = logCall (Pause v) (updVideo v (\<lambda>x. x\<lparr>paused := True\<rparr>) s)"

definition setSrc :: "nat \<Rightarrow> string \<Rightarrow> player \<Rightarrow> player" where
  "setSrc v u s = logCall (SetSrc v u) (updVideo v (\<lambda>x. x\<lparr>src := Some u\<rparr>) s)"

text \<open>\<^verbatim>\<open>hls.startLoad()\<close>, \<^verbatim>\<open>hls.recoverMediaError()\<close> and \<^verbatim>\<open>hls.destroy()\<close>.\<close>

definition startLoad :: "nat \<Rightarrow> player \<Rightarrow> player" where
  "startLoad h s = logCall (StartLoad h) s"

definition recoverMediaError :: "nat \<Rightarrow> player \<Rightarrow> player" where
  "recoverMediaError h s = logCall (RecoverMediaError h) s"

definition destroy :: "nat \<Rightarrow> player \<Rightarrow> player" where
  "destroy h s =
     logCall (Destroy h) (s\<lparr>engines := (engines s)[h := (engines s ! h)\<lparr>destroyed := True\<rparr>]\<rparr>)"

text \<open>JavaScript truthiness of a string that may be undefined.\<close>

definition truthy :: "string option \<Rightarrow> bool" where
  "truthy u = (case u of None \<Rightarrow> False | Some x \<Rightarrow> x \<noteq> [])"

text \<open>A string that may be undefined, converted to a string (by the \<^verbatim>\<open>src\<close> setter).\<close>

definition toString :: "string option \<Rightarrow> string" where
  "toString u = (case u of None \<Rightarrow> ''undefined'' | Some x \<Rightarrow> x)"

subsection \<open>The handlers that connectStream registers\<close>

text \<open>The MANIFEST_PARSED handler, a closure over the element \<open>v\<close>.\<close>

definition manifestParsed :: "nat \<Rightarrow> player \<Rightarrow> player" where
  "manifestParsed v s = (play v (s\<lparr>status := Connected\<rparr>))\<lparr>isPlaying := True\<rparr>"

record errorData =
  fatal :: bool
  type :: string
  details :: string

definition NETWORK_ERROR :: string where
  "NETWORK_ERROR = ''networkError''"

definition MEDIA_ERROR :: string where
  "MEDIA_ERROR = ''mediaError''"

text \<open>The ERROR handler, a closure over the instance \<open>h\<close>.\<close>

definition hlsError :: "nat \<Rightarrow> errorData \<Rightarrow> player \<Rightarrow> player" where
  "hlsError h d s =
     (if fatal d then
        let s1 = s\<lparr>status := Error, error := Some (type d @ '': '' @ details d)\<rparr>
        in if type d = NETWORK_ERROR then startLoad h s1
           else if type d = MEDIA_ERROR then recoverMediaError h s1
           else (destroy h s1)\<lparr>isPlaying := False\<rparr>
      else s)"

text \<open>The two listeners of the native path, closures over the element \<open>v\<close>.\<close>

definition loadedmetadata :: "nat \<Rightarrow> player \<Rightarrow> player" where
  "loadedmetadata v s = (play v (s\<lparr>status := Connected\<rparr>))\<lparr>isPlaying := True\<rparr>"

definition videoError :: "player \<Rightarrow> player" where
  "videoError s = s\<lparr>status := Error, error := Some ''Failed to load stream''\<rparr>"

subsection \<open>The operations of the component\<close>

definition connectStream :: "browser \<Rightarrow> player \<Rightarrow> player" where
  "connectStream b s =
     (case videoRef s of
        None \<Rightarrow> s
      | Some v \<Rightarrow>
          let s1 = s\<lparr>status := Connecting, error := None\<rparr>
          in if isSupported b then
               let h = length (engines s1)
               in s1\<lparr>engines := engines s1 @ [\<lparr>source = streamUrl s1, media = v, destroyed = False\<rparr>],
                     hlsRef := Some h,
                     calls := calls s1 @ [NewHls h, LoadSource h (streamUrl s1), AttachMedia h v,
                                          On h MANIFEST_PARSED, On h ERROR]\<rparr>
             else if canPlayType b ''application/vnd.apple.mpegurl'' \<noteq> [] then
               logCall (AddEventListener v ''error'')
                 (logCall (AddEventListener v ''loadedmetadata'')
                   (updVideo v (\<lambda>x. x\<lparr>listeners := Suc (listeners x)\<rparr>)
                     (setSrc v (toString (streamUrl s1)) s1)))
             else s1\<lparr>status := Error, error := Some ''HLS is not supported in this browser''\<rparr>)"

text \<open>The cleanup function that the effect returns.\<close>

definition cleanup :: "player \<Rightarrow> player" where
  "cleanup s = (case hlsRef s of None \<Rightarrow> s | Some h \<Rightarrow> (destroy h s)\<lparr>hlsRef := None\<rparr>)"

text \<open>The body of the effect (auto-connect).\<close>

definition autoConnect :: "browser \<Rightarrow> player \<Rightarrow> player" where
  "autoConnect b s = (if event s \<noteq> None \<and> truthy (streamUrl s) then connectStream b s else s)"

definition disconnectStream :: "player \<Rightarrow> player" where
  "disconnectStream s =
     (let s1 = (case videoRef s of None \<Rightarrow> s | Some v \<Rightarrow> setSrc v [] (pause v s));
          s2 = (case hlsRef s1 of None \<Rightarrow> s1 | Some h \<Rightarrow> (destroy h s1)\<lparr>hlsRef := None\<rparr>)
      in s2\<lparr>status := Disconnected, isPlaying := False, error := None\<rparr>)"

definition togglePlayPause :: "player \<Rightarrow> player" where
  "togglePlayPause s =
     (case videoRef s of
        None \<Rightarrow> s
      | Some v \<Rightarrow>
          if paused (videos s ! v) then (play v s)\<lparr>isPlaying := True\<rparr>
          else (pause v s)\<lparr>isPlaying := False\<rparr>)"

text \<open>
  Assigning \<^verbatim>\<open>video.volume\<close>: the setter of HTMLMediaElement throws a TypeError
  for a value that is not finite and an IndexSizeError for one outside 0..1,
  and leaves the element as it was.
\<close>

datatype exception = TypeError | IndexSizeError

definition assignVolume :: "number \<Rightarrow> video \<Rightarrow> exception + video" where
  "assignVolume n x =
     (case n of
        Num r \<Rightarrow> if r < 0 \<or> 1 < r then Inl IndexSizeError else Inr (x\<lparr>vvolume := r\<rparr>)
      | NaN \<Rightarrow> Inl TypeError
      | PosInfinity \<Rightarrow> Inl TypeError
      | NegInfinity \<Rightarrow> Inl TypeError)"

text \<open>
  \<^verbatim>\<open>handleVolumeChange\<close>, given \<^verbatim>\<open>parseFloat(e.target.value)\<close>. React's
  \<^verbatim>\<open>setVolume(newVolume)\<close> is the update of the \<open>volume\<close> state; it is queued
  before the assignment, so it stays when the assignment throws. The exception
  leaves the handler uncaught and is returned beside the state.
\<close>

definition handleVolumeChange :: "number \<Rightarrow> player \<Rightarrow> exception option \<times> player" where
  "handleVolumeChange newVolume s =
     (let s1 = s\<lparr>volume := newVolume\<rparr>
      in case videoRef s1 of
           None \<Rightarrow> (None, s1)
         | Some v \<Rightarrow>
             (case assignVolume newVolume (videos s1 ! v) of
                Inl e \<Rightarrow> (Some e, logCall (AssignVolume v newVolume) s1)
              | Inr x \<Rightarrow> (None, logCall (AssignVolume v newVolume) (s1\<lparr>videos := (videos s1)[v := x]\<rparr>))))"


subsection \<open>The component as a transition system\<close>

text \<open>
  A render with a changed \<^verbatim>\<open>event\<close> or \<^verbatim>\<open>streamUrl\<close>. React first commits the
  new output: the \<^verbatim>\<open><video>\<close> element exists exactly while \<^verbatim>\<open>event\<close> is not
  null (the component returns the "No Event Selected" view otherwise), so a
  fresh element is mounted when the event becomes present, and the ref is
  reset to null when it becomes absent. Then the cleanup of the previous effect
  runs, then the effect body.
\<close>

definition commit :: "event option \<Rightarrow> string option \<Rightarrow> player \<Rightarrow> player" where
  "commit ev url s =
     (let s1 = s\<lparr>event := ev, streamUrl := url\<rparr>
      in case ev of
           None \<Rightarrow> s1\<lparr>videoRef := None\<rparr>
         | Some e \<Rightarrow>
             if event s = None
             then s1\<lparr>videos := videos s @ [newVideo], videoRef := Some (length (videos s))\<rparr>
             else s1)"

definition render :: "browser \<Rightarrow> event option \<Rightarrow> string option \<Rightarrow> player \<Rightarrow> player" where
  "render b ev url s = autoConnect b (cleanup (commit ev url s))"

text \<open>
  What can happen to a mounted component: a render with new props, a click on
  one of the three buttons, a move of the volume slider, an event of an engine
  instance, an event of a video element.
\<close>

datatype action =
    Render "event option" "string option"
  | ClickConnect
  | ClickDisconnect
  | ClickPlayPause
  | ChangeVolume number
  | HlsManifestParsed nat
  | HlsError nat errorData
  | VideoLoadedMetadata nat
  | VideoError nat

definition inRange :: "number \<Rightarrow> bool" where
  "inRange n =
     (case n of Num r \<Rightarrow> 0 \<le> r \<and> r \<le> 1 | NaN \<Rightarrow> False | PosInfinity \<Rightarrow> False | NegInfinity \<Rightarrow> False)"

text \<open>
  The JSX decides which controls exist: all of them need the event view; the
  Connect button is rendered when \<^verbatim>\<open>status === 'disconnected'\<close> and the
  Disconnect button otherwise; the Play/Pause button and the slider (with
  \<^verbatim>\<open>min="0" max="1"\<close>) when \<^verbatim>\<open>status === 'connected'\<close>. An engine event
  reaches the handlers of an instance that \<^verbatim>\<open>connectStream\<close> created (the
  model does not rely on hls.js silencing a destroyed instance), a video
  event the listeners added to that element.
\<close>

fun enabled :: "action \<Rightarrow> player \<Rightarrow> bool" where
  "enabled (Render ev url) s = True"
| "enabled ClickConnect s = (event s \<noteq> None \<and> status s = Disconnected)"
| "enabled ClickDisconnect s = (event s \<noteq> None \<and> status s \<noteq> Disconnected)"
| "enabled ClickPlayPause s = (event s \<noteq> None \<and> status s = Connected)"
| "enabled (ChangeVolume n) s = (event s \<noteq> None \<and> status s = Connected \<and> inRange n)"
| "enabled (HlsManifestParsed h) s = (h < length (engines s))"
| "enabled (HlsError h d) s = (h < length (engines s))"
| "enabled (VideoLoadedMetadata v) s = (v < length (videos s))"
| "enabled (VideoError v) s = (v < length (videos s))"

fun perform :: "browser \<Rightarrow> action \<Rightarrow> player \<Rightarrow> player" where
  "perform b (Render ev url) s = render b ev url s"
| "perform b ClickConnect s = connectStream b s"
| "perform b ClickDisconnect s = disconnectStream s"
| "perform b ClickPlayPause s = togglePlayPause s"
| "perform b (ChangeVolume n) s = snd (handleVolumeChange n s)"
| "perform b (HlsManifestParsed h) s = manifestParsed (media (engines s ! h)) s"
| "perform b (HlsError h d) s = hlsError h d s"
| "perform b (VideoLoadedMetadata v) s = (loadedmetadata v ^^ listeners (videos s ! v)) s"
| "perform b (VideoError v) s = (videoError ^^ listeners (videos s ! v)) s"

inductive reachable :: "browser \<Rightarrow> player \<Rightarrow> bool" for b :: browser where
  start: "reachable b initial"
| step: "reachable b s \<Longrightarrow> enabled a s \<Longrightarrow> reachable b (perform b a s)"

text \<open>A live engine instance: created and not destroyed.\<close>

definition live :: "hls list \<Rightarrow> nat \<Rightarrow> bool" where
  "live es h = (h < length es \<and> \<not> destroyed (es ! h))"

definition liveEngines :: "player \<Rightarrow> nat list" where
  "liveEngines s = filter (live (engines s)) [0..<length (engines s)]"

text \<open>
  The invariant of the component: a live instance is the one \<^verbatim>\<open>hlsRef\<close> holds,
  and \<^verbatim>\<open>hlsRef\<close> is null while the status is disconnected.
\<close>

definition owned :: "player \<Rightarrow> bool" where
  "owned s =
     ((\<forall>h. live (engines s) h \<longrightarrow> hlsRef s = Some h) \<and>
      (status s = Disconnected \<longrightarrow> hlsRef s = None))"

text \<open>A live instance is attached to the element that \<^verbatim>\<open>videoRef\<close> holds.\<close>

definition attached :: "player \<Rightarrow> bool" where
  "attached s = (\<forall>h. live (engines s) h \<longrightarrow> videoRef s = Some (media (engines s ! h)))"

text \<open>
  A ref holds an index into \<open>videos\<close> or \<open>engines\<close>. The lookups of the
  model are meaningful on the states where no index dangles; these are the
  only ones the component reaches (\<open>reachable_wellFormed\<close> below).
\<close>

definition wellFormed :: "player \<Rightarrow> bool" where
  "wellFormed s =
     ((\<forall>v. videoRef s = Some v \<longrightarrow> v < length (videos s)) \<and>
      (\<forall>h. hlsRef s = Some h \<longrightarrow> h < length (engines s)) \<and>
      (\<forall>h < length (engines s). media (engines s ! h) < length (videos s)))"

text \<open>The calls made between two states of one run.\<close>

definition callsSince :: "player \<Rightarrow> player \<Rightarrow> call list" where
  "callsSince s t = drop (length (calls s)) (calls t)"

subsection \<open>Sample inputs\<close>

definition aapl :: event where
  "aapl = \<lparr>exchange = ''NASDAQ'', symbol = ''AAPL'', companyName = ''Apple Inc.'', year = 2024,
     quarter = 4, eventDate = ''2024-11-01T17:00:00Z'',
     streamingUrl = Some ''https://x/playlist.m3u8''\<rparr>"

text \<open>A browser where hls.js runs, and one with neither hls.js nor native HLS.\<close>

definition chrome :: browser where
  "chrome = \<lparr>isSupported = True, canPlayType = (\<lambda>t. [])\<rparr>"

definition legacy :: browser where
  "legacy = \<lparr>isSupported = False, canPlayType = (\<lambda>t. [])\<rparr>"

definition networkError :: errorData where
  "networkError = \<lparr>fatal = True, type = ''networkError'', details = ''manifestLoadError''\<rparr>"

definition mediaError :: errorData where
  "mediaError = \<lparr>fatal = True, type = ''mediaError'', details = ''bufferStalledError''\<rparr>"

definition otherError :: errorData where
  "otherError = \<lparr>fatal = True, type = ''otherError'', details = ''internalException''\<rparr>"

text \<open>
  The event is selected (\<open>selected\<close>), its manifest is parsed (\<open>watching\<close>),
  the user disconnects (\<open>stopped\<close>); \<open>unlisted\<close> is the selection of an event
  whose \<^verbatim>\<open>streamingUrl\<close> is the empty string.
\<close>

definition selected :: "browser \<Rightarrow> player" where
  "selected b = perform b (Render (Some aapl) (streamingUrl aapl)) initial"

definition watching :: "browser \<Rightarrow> player" where
  "watching b = perform b (HlsManifestParsed 0) (selected b)"

definition stopped :: "browser \<Rightarrow> player" where
  "stopped b = perform b ClickDisconnect (watching b)"

definition unlisted :: "browser \<Rightarrow> player" where
  "unlisted b = perform b (Render (Some (aapl\<lparr>streamingUrl := Some []\<rparr>)) (Some [])) initial"

definition oneEvent :: eventList where
  "oneEvent = \<lparr>events = [aapl], loading = False, listError = None\<rparr>"

definition serverError :: fetched where
  "serverError = Response \<lparr>resp_status = 500, resp_body = Data (Some [])\<rparr>"

section \<open>Evaluation of the sample runs\<close>

declare string_of_nat.simps [simp del]

lemmas ops = connectStream_def cleanup_def autoConnect_def disconnectStream_def togglePlayPause_def
  handleVolumeChange_def assignVolume_def manifestParsed_def hlsError_def loadedmetadata_def
  videoError_def play_def pause_def setSrc_def startLoad_def recoverMediaError_def destroy_def
  logCall_def updVideo_def commit_def render_def truthy_def toString_def initial_def
  NETWORK_ERROR_def MEDIA_ERROR_def Let_def

lemma selected_chrome:
  "selected chrome = \<lparr>event = Some aapl, streamUrl = Some ''https://x/playlist.m3u8'',
     videoRef = Some 0, hlsRef = Some 0, isPlaying = False, status = Connecting, error = None,
     volume = Num 1, videos = [newVideo],
     engines = [\<lparr>source = Some ''https://x/playlist.m3u8'', media = 0, destroyed = False\<rparr>],
     calls = [NewHls 0, LoadSource 0 (Some ''https://x/playlist.m3u8''), AttachMedia 0 0,
              On 0 MANIFEST_PARSED, On 0 ERROR]\<rparr>"
  by (simp add: selected_def ops aapl_def chrome_def)

lemma watching_chrome:
  "watching chrome = \<lparr>event = Some aapl, streamUrl = Some ''https://x/playlist.m3u8'',
     videoRef = Some 0, hlsRef = Some 0, isPlaying = True, status = Connected, error = None,
     volume = Num 1, videos = [newVideo\<lparr>paused := False\<rparr>],
     engines = [\<lparr>source = Some ''https://x/playlist.m3u8'', media = 0, destroyed = False\<rparr>],
     calls = [NewHls 0, LoadSource 0 (Some ''https://x/playlist.m3u8''), AttachMedia 0 0,
              On 0 MANIFEST_PARSED, On 0 ERROR, Play 0]\<rparr>"
  by (simp add: watching_def selected_chrome ops)

lemma stopped_chrome:
  "stopped chrome = \<lparr>event = Some aapl, streamUrl = Some ''https://x/playlist.m3u8'',
     videoRef = Some 0, hlsRef = None, isPlaying = False, status = Disconnected, error = None,
     volume = Num 1, videos = [newVideo\<lparr>paused := True, src := Some []\<rparr>],
     engines = [\<lparr>source = Some ''https://x/playlist.m3u8'', media = 0, destroyed = True\<rparr>],
     calls = [NewHls 0, LoadSource 0 (Some ''https://x/playlist.m3u8''), AttachMedia 0 0,
              On 0 MANIFEST_PARSED, On 0 ERROR, Play 0, Pause 0, SetSrc 0 [], Destroy 0]\<rparr>"
  by (simp add: stopped_def watching_chrome ops)

lemma reachable_selected: "reachable b (selected b)"
  unfolding selected_def by (rule reachable.step [OF reachable.start]) simp

lemma reachable_watching: "reachable chrome (watching chrome)"
  unfolding watching_def by (rule reachable.step [OF reachable_selected]) (simp add: selected_chrome)

lemma reachable_stopped: "reachable chrome (stopped chrome)"
  unfolding stopped_def by (rule reachable.step [OF reachable_watching]) (simp add: watching_chrome)

section \<open>No ref dangles\<close>

lemma media_released: "media (es[h := (es ! h)\<lparr>destroyed := True\<rparr>] ! k) = media (es ! k)"
  by (cases "k = h"; cases "h < length es") (simp_all add: list_update_beyond)

lemma wellFormed_videos:
  "wellFormed s \<Longrightarrow> wellFormed (logCall c s)"
  "wellFormed s \<Longrightarrow> wellFormed (updVideo v f s)"
  "wellFormed s \<Longrightarrow> wellFormed (play v s)"
  "wellFormed s \<Longrightarrow> wellFormed (pause v s)"
  "wellFormed s \<Longrightarrow> wellFormed (setSrc v u s)"
  "wellFormed s \<Longrightarrow> wellFormed (startLoad h s)"
  "wellFormed s \<Longrightarrow> wellFormed (recoverMediaError h s)"
  "wellFormed s \<Longrightarrow> wellFormed (destroy h s)"
  by (auto simp: wellFormed_def logCall_def updVideo_def play_def pause_def setSrc_def startLoad_def
      recoverMediaError_def destroy_def media_released)

lemma wellFormed_fields:
  "wellFormed s \<Longrightarrow> wellFormed (s\<lparr>status := x\<rparr>)"
  "wellFormed s \<Longrightarrow> wellFormed (s\<lparr>error := y\<rparr>)"
  "wellFormed s \<Longrightarrow> wellFormed (s\<lparr>isPlaying := z\<rparr>)"
  "wellFormed s \<Longrightarrow> wellFormed (s\<lparr>volume := n\<rparr>)"
  "wellFormed s \<Longrightarrow> wellFormed (s\<lparr>hlsRef := None\<rparr>)"
  by (simp_all add: wellFormed_def)

lemma wellFormed_cleanup: "wellFormed s \<Longrightarrow> wellFormed (cleanup s)"
  by (simp add: cleanup_def wellFormed_videos wellFormed_fields split: option.split)

lemma wellFormed_commit: "wellFormed s \<Longrightarrow> wellFormed (commit ev url s)"
  by (auto simp: wellFormed_def commit_def Let_def less_Suc_eq split: option.splits)

lemma wellFormed_connectStream: "wellFormed s \<Longrightarrow> wellFormed (connectStream b s)"
proof (cases "videoRef s")
  case None
  assume "wellFormed s"
  with None show ?thesis
    by (simp add: connectStream_def)
next
  case (Some v)
  assume w: "wellFormed s"
  with Some have "wellFormed (s\<lparr>status := x, error := y,
      engines := engines s @ [\<lparr>source = u, media = v, destroyed = False\<rparr>],
      hlsRef := Some (length (engines s)), calls := c\<rparr>)" for x y u c
    by (auto simp: wellFormed_def nth_append less_Suc_eq)
  with Some w show ?thesis
    by (simp add: connectStream_def Let_def wellFormed_videos wellFormed_fields)
qed

lemma wellFormed_disconnectStream: "wellFormed s \<Longrightarrow> wellFormed (disconnectStream s)"
  by (simp add: disconnectStream_def Let_def wellFormed_videos wellFormed_fields split: option.split)

lemma wellFormed_manifestParsed: "wellFormed s \<Longrightarrow> wellFormed (manifestParsed v s)"
  by (simp add: manifestParsed_def wellFormed_videos wellFormed_fields)

lemma wellFormed_loadedmetadata: "wellFormed s \<Longrightarrow> wellFormed ((loadedmetadata v ^^ n) s)"
  by (induction n) (simp_all add: loadedmetadata_def wellFormed_videos wellFormed_fields)

lemma wellFormed_videoError: "wellFormed s \<Longrightarrow> wellFormed ((videoError ^^ n) s)"
  by (induction n) (simp_all add: videoError_def wellFormed_fields)

lemma wellFormed_hlsError: "wellFormed s \<Longrightarrow> wellFormed (hlsError h d s)"
  by (simp add: hlsError_def Let_def wellFormed_videos wellFormed_fields)

lemma wellFormed_togglePlayPause: "wellFormed s \<Longrightarrow> wellFormed (togglePlayPause s)"
  by (simp add: togglePlayPause_def wellFormed_videos wellFormed_fields split: option.split)

lemma wellFormed_handleVolumeChange: "wellFormed s \<Longrightarrow> wellFormed (snd (handleVolumeChange n s))"
  by (auto simp: wellFormed_def handleVolumeChange_def Let_def logCall_def split: option.split sum.split)

lemma wellFormed_perform: "wellFormed s \<Longrightarrow> wellFormed (perform b a s)"
  by (cases a)
    (simp_all add: render_def autoConnect_def wellFormed_connectStream wellFormed_cleanup
      wellFormed_commit wellFormed_disconnectStream wellFormed_togglePlayPause
      wellFormed_handleVolumeChange wellFormed_manifestParsed wellFormed_hlsError
      wellFormed_loadedmetadata wellFormed_videoError)

lemma reachable_wellFormed: "reachable b s \<Longrightarrow> wellFormed s"
  by (induction rule: reachable.induct) (simp_all add: wellFormed_perform, simp add: wellFormed_def initial_def)

section \<open>The ownership invariant\<close>

lemma live_released: "live (es[h := (es ! h)\<lparr>destroyed := True\<rparr>]) k = (live es k \<and> k \<noteq> h)"
  by (cases "k = h") (auto simp: live_def)

lemma live_append: "live (es @ [e]) k = (live es k \<or> k = length es \<and> \<not> destroyed e)"
  by (auto simp: live_def nth_append)

lemma video_ops [simp]:
  "engines (logCall c s) = engines s" "hlsRef (logCall c s) = hlsRef s" "status (logCall c s) = status s"
  "engines (updVideo v f s) = engines s" "hlsRef (updVideo v f s) = hlsRef s"
  "status (updVideo v f s) = status s"
  "engines (play v s) = engines s" "hlsRef (play v s) = hlsRef s" "status (play v s) = status s"
  "engines (pause v s) = engines s" "hlsRef (pause v s) = hlsRef s" "status (pause v s) = status s"
  "engines (setSrc v u s) = engines s" "hlsRef (setSrc v u s) = hlsRef s"
  "status (setSrc v u s) = status s"
  by (simp_all add: logCall_def updVideo_def play_def pause_def setSrc_def)

lemma engine_ops [simp]:
  "engines (startLoad h s) = engines s" "hlsRef (startLoad h s) = hlsRef s"
  "status (startLoad h s) = status s"
  "engines (recoverMediaError h s) = engines s" "hlsRef (recoverMediaError h s) = hlsRef s"
  "status (recoverMediaError h s) = status s"
  "engines (destroy h s) = (engines s)[h := (engines s ! h)\<lparr>destroyed := True\<rparr>]"
  "hlsRef (destroy h s) = hlsRef s" "status (destroy h s) = status s"
  by (simp_all add: startLoad_def recoverMediaError_def destroy_def)

lemma liveEngines_empty: "(liveEngines s = []) = (\<forall>h. \<not> live (engines s) h)"
  by (auto simp: liveEngines_def filter_empty_conv live_def)

lemma owned_no_ref: "owned s \<Longrightarrow> hlsRef s = None \<Longrightarrow> liveEngines s = []"
  by (simp add: liveEngines_empty owned_def)

lemma owned_cleanup: "owned s \<Longrightarrow> owned (cleanup s) \<and> hlsRef (cleanup s) = None"
  by (auto simp: owned_def cleanup_def live_released split: option.splits)

lemma owned_commit: "owned s \<Longrightarrow> owned (commit ev url s)"
  by (auto simp: owned_def commit_def Let_def split: option.splits)

lemma owned_connectStream: "owned s \<Longrightarrow> hlsRef s = None \<Longrightarrow> owned (connectStream b s)"
  by (auto simp: owned_def connectStream_def Let_def live_append split: option.splits)

lemma owned_disconnectStream:
  "owned s \<Longrightarrow> owned (disconnectStream s) \<and> hlsRef (disconnectStream s) = None"
  by (cases "videoRef s"; cases "hlsRef s")
    (auto simp: owned_def disconnectStream_def Let_def live_released)

lemma owned_manifestParsed: "owned s \<Longrightarrow> owned (manifestParsed v s)"
  by (auto simp: owned_def manifestParsed_def)

lemma owned_loadedmetadata: "owned s \<Longrightarrow> owned ((loadedmetadata v ^^ n) s)"
  by (induction n) (auto simp: owned_def loadedmetadata_def)

lemma owned_videoError: "owned s \<Longrightarrow> owned ((videoError ^^ n) s)"
  by (induction n) (auto simp: owned_def videoError_def)

lemma owned_hlsError: "owned s \<Longrightarrow> owned (hlsError h d s)"
  by (auto simp: owned_def hlsError_def Let_def live_released)

lemma owned_togglePlayPause: "owned s \<Longrightarrow> owned (togglePlayPause s)"
  by (auto simp: owned_def togglePlayPause_def split: option.splits)

lemma owned_handleVolumeChange: "owned s \<Longrightarrow> owned (snd (handleVolumeChange n s))"
  by (auto simp: owned_def handleVolumeChange_def Let_def split: option.splits sum.splits)

lemma owned_render: "owned s \<Longrightarrow> owned (render b ev url s)"
  by (simp add: render_def autoConnect_def owned_connectStream owned_cleanup owned_commit)

lemma owned_perform: "owned s \<Longrightarrow> enabled a s \<Longrightarrow> owned (perform b a s)"
proof (cases a)
  case ClickConnect
  assume "owned s" "enabled a s"
  with ClickConnect have "hlsRef s = None"
    by (simp add: owned_def)
  with \<open>owned s\<close> ClickConnect show ?thesis
    by (simp add: owned_connectStream)
qed (simp_all add: owned_render owned_disconnectStream owned_togglePlayPause owned_handleVolumeChange
      owned_manifestParsed owned_hlsError owned_loadedmetadata owned_videoError)

lemma owned_initial: "owned initial"
  by (simp add: owned_def initial_def live_def)

lemma reachable_owned: "reachable b s \<Longrightarrow> owned s"
  by (induction rule: reachable.induct) (simp_all add: owned_perform owned_initial)

lemma owned_at_most_one: "owned s \<Longrightarrow> length (liveEngines s) \<le> 1"
proof -
  assume o: "owned s"
  have d: "distinct (liveEngines s)"
    by (simp add: liveEngines_def)
  have "set (liveEngines s) \<subseteq> (case hlsRef s of None \<Rightarrow> {} | Some h \<Rightarrow> {h})"
    using o by (auto simp: liveEngines_def owned_def split: option.splits)
  then have "card (set (liveEngines s)) \<le> 1"
    by (cases "hlsRef s") (auto dest: card_mono [rotated])
  with d show ?thesis
    by (simp add: distinct_card)
qed

section \<open>A live engine plays on the bound element\<close>

lemma video_ops_ref [simp]:
  "videoRef (logCall c s) = videoRef s" "videoRef (updVideo v f s) = videoRef s"
  "videoRef (play v s) = videoRef s" "videoRef (pause v s) = videoRef s"
  "videoRef (setSrc v u s) = videoRef s" "videoRef (startLoad h s) = videoRef s"
  "videoRef (recoverMediaError h s) = videoRef s" "videoRef (destroy h s) = videoRef s"
  by (simp_all add: logCall_def updVideo_def play_def pause_def setSrc_def startLoad_def
      recoverMediaError_def destroy_def)

lemma attached_no_live: "liveEngines s = [] \<Longrightarrow> attached s"
  by (simp add: attached_def liveEngines_empty)

lemma attached_connectStream: "liveEngines s = [] \<Longrightarrow> attached (connectStream b s)"
  by (cases "videoRef s")
    (auto simp: attached_def liveEngines_empty connectStream_def Let_def live_append)

lemma attached_render: "owned s \<Longrightarrow> attached (render b ev url s)"
proof -
  assume "owned s"
  then have "liveEngines (cleanup (commit ev url s)) = []"
    using owned_cleanup [OF owned_commit] by (simp add: owned_no_ref)
  then show ?thesis
    by (simp add: render_def autoConnect_def attached_connectStream attached_no_live)
qed

lemma attached_disconnectStream: "owned s \<Longrightarrow> attached (disconnectStream s)"
  using owned_disconnectStream [of s] by (simp add: attached_no_live owned_no_ref)

lemma attached_manifestParsed: "attached s \<Longrightarrow> attached (manifestParsed v s)"
  by (simp add: attached_def manifestParsed_def)

lemma attached_loadedmetadata: "attached s \<Longrightarrow> attached ((loadedmetadata v ^^ n) s)"
  by (induction n) (simp_all add: attached_def loadedmetadata_def)

lemma attached_videoError: "attached s \<Longrightarrow> attached ((videoError ^^ n) s)"
  by (induction n) (simp_all add: attached_def videoError_def)

lemma attached_hlsError: "attached s \<Longrightarrow> attached (hlsError h d s)"
  by (auto simp: attached_def hlsError_def Let_def live_released)

lemma attached_togglePlayPause: "attached s \<Longrightarrow> attached (togglePlayPause s)"
  by (auto simp: attached_def togglePlayPause_def split: option.split)

lemma attached_handleVolumeChange: "attached s \<Longrightarrow> attached (snd (handleVolumeChange n s))"
  by (auto simp: attached_def handleVolumeChange_def Let_def logCall_def split: option.split sum.split)

lemma attached_perform: "owned s \<Longrightarrow> attached s \<Longrightarrow> enabled a s \<Longrightarrow> attached (perform b a s)"
proof (cases a)
  case ClickConnect
  assume "owned s" "enabled a s"
  with ClickConnect have "liveEngines s = []"
    by (auto simp: owned_def liveEngines_empty)
  with ClickConnect show ?thesis
    by (simp add: attached_connectStream)
qed (simp_all add: attached_render attached_disconnectStream attached_togglePlayPause
      attached_handleVolumeChange attached_manifestParsed attached_hlsError
      attached_loadedmetadata attached_videoError)

lemma reachable_attached: "reachable b s \<Longrightarrow> attached s"
proof (induction rule: reachable.induct)
  case start
  show ?case
    by (simp add: attached_def initial_def live_def)
next
  case (step s a)
  then show ?case
    by (simp add: attached_perform reachable_owned)
qed

section \<open>Fatal engine errors\<close>

text \<open>
  After a fatal error of another category the handler has destroyed the
  instance but \<^verbatim>\<open>hlsRef\<close> still holds it: the Disconnect button (rendered,
  since the status is error) makes \<^verbatim>\<open>disconnectStream\<close> call \<^verbatim>\<open>destroy\<close> on
  it a second time, with no connect in between.
\<close>

theorem fatal_other_then_disconnect_destroys_again:
  "status (selected chrome) = Connecting \<and> fatal otherError \<and>
   callsSince (selected chrome) (hlsError 0 otherError (selected chrome)) = [Destroy 0] \<and>
   enabled ClickDisconnect (hlsError 0 otherError (selected chrome)) \<and>
   filter engineCall (callsSince (hlsError 0 otherError (selected chrome))
      (disconnectStream (hlsError 0 otherError (selected chrome)))) = [Destroy 0]"
  by (simp add: selected_chrome ops otherError_def callsSince_def)

text \<open>
  C1 (amended). For a fatal error event while the status is connecting or
  connected, the status becomes error and the descriptor is "type: details".
  A network error makes the handler issue exactly one \<^verbatim>\<open>startLoad\<close> call
  and nothing else, a media error exactly one \<^verbatim>\<open>recoverMediaError\<close> call
  and nothing else. Any other category makes it issue exactly one
  \<^verbatim>\<open>destroy\<close> call and nothing else; the instance is released and
  \<^verbatim>\<open>hlsRef\<close> is left as it was. From there, play/pause and a volume change
  issue no engine call, while \<^verbatim>\<open>disconnectStream\<close> and the effect cleanup
  issue one more \<^verbatim>\<open>destroy\<close> on the instance that \<^verbatim>\<open>hlsRef\<close> still holds.
\<close>

theorem fatal_error_handling:
  "fatal d \<Longrightarrow> status s = Connecting \<or> status s = Connected \<Longrightarrow>
   status (hlsError h d s) = Error \<and>
   error (hlsError h d s) = Some (type d @ '': '' @ details d) \<and>
   (type d = NETWORK_ERROR \<longrightarrow> calls (hlsError h d s) = calls s @ [StartLoad h]) \<and>
   (type d = MEDIA_ERROR \<longrightarrow> calls (hlsError h d s) = calls s @ [RecoverMediaError h]) \<and>
   (type d \<noteq> NETWORK_ERROR \<and> type d \<noteq> MEDIA_ERROR \<longrightarrow>
      calls (hlsError h d s) = calls s @ [Destroy h] \<and>
      \<not> live (engines (hlsError h d s)) h \<and>
      hlsRef (hlsError h d s) = hlsRef s \<and>
      filter engineCall (callsSince (hlsError h d s) (togglePlayPause (hlsError h d s))) = [] \<and>
      filter engineCall (callsSince (hlsError h d s) (snd (handleVolumeChange n (hlsError h d s)))) = [] \<and>
      (hlsRef s = Some h \<longrightarrow>
         filter engineCall (callsSince (hlsError h d s) (disconnectStream (hlsError h d s))) = [Destroy h] \<and>
         callsSince (hlsError h d s) (cleanup (hlsError h d s)) = [Destroy h]))"
  by (cases "videoRef s")
    (auto simp: hlsError_def startLoad_def recoverMediaError_def destroy_def logCall_def Let_def
      NETWORK_ERROR_def MEDIA_ERROR_def live_def callsSince_def togglePlayPause_def play_def pause_def
      updVideo_def handleVolumeChange_def disconnectStream_def setSrc_def cleanup_def
      split: sum.splits)

theorem fatal_error_handling_witness:
  "fatal networkError \<and> fatal mediaError \<and> fatal otherError \<and>
   status (selected chrome) = Connecting \<and>
   type networkError = NETWORK_ERROR \<and> type mediaError = MEDIA_ERROR \<and>
   type otherError \<noteq> NETWORK_ERROR \<and> type otherError \<noteq> MEDIA_ERROR \<and>
   hlsRef (selected chrome) = Some 0 \<and>
   status (hlsError 0 networkError (selected chrome)) = Error \<and>
   calls (hlsError 0 networkError (selected chrome)) = calls (selected chrome) @ [StartLoad 0] \<and>
   status (hlsError 0 mediaError (selected chrome)) = Error \<and>
   calls (hlsError 0 mediaError (selected chrome)) = calls (selected chrome) @ [RecoverMediaError 0] \<and>
   status (hlsError 0 otherError (selected chrome)) = Error \<and>
   calls (hlsError 0 otherError (selected chrome)) = calls (selected chrome) @ [Destroy 0] \<and>
   callsSince (hlsError 0 otherError (selected chrome))
     (cleanup (hlsError 0 otherError (selected chrome))) = [Destroy 0]"
proof -
  have f: "fatal networkError" "fatal mediaError" "fatal otherError"
    by (simp_all add: networkError_def mediaError_def otherError_def)
  have t: "type networkError = NETWORK_ERROR" "type mediaError = MEDIA_ERROR"
    "type otherError \<noteq> NETWORK_ERROR" "type otherError \<noteq> MEDIA_ERROR"
    by (simp_all add: networkError_def mediaError_def otherError_def NETWORK_ERROR_def MEDIA_ERROR_def)
  have s: "status (selected chrome) = Connecting \<or> status (selected chrome) = Connected"
    "hlsRef (selected chrome) = Some 0" "status (selected chrome) = Connecting"
    by (simp_all add: selected_chrome)
  show ?thesis
    using f t s fatal_error_handling [OF f(1) s(1), of 0] fatal_error_handling [OF f(2) s(1), of 0]
      fatal_error_handling [OF f(3) s(1), of 0]
    by simp
qed

section \<open>Teardown\<close>

text \<open>
  The effect cleanup on a connected session releases the engine and leaves
  the status connected; so does the whole re-render for an event that has no
  stream URL.
\<close>

theorem cleanup_keeps_status:
  "status (watching chrome) = Connected \<and> status (cleanup (watching chrome)) = Connected \<and>
   status (perform chrome (Render (Some aapl) None) (watching chrome)) = Connected"
  by (simp add: watching_chrome ops)

text \<open>
  C2 (amended). From every state, \<^verbatim>\<open>disconnectStream\<close> results in status
  disconnected with \<^verbatim>\<open>hlsRef\<close> cleared, and the effect cleanup (run when the
  selected event or its URL changes and when the view is destroyed) clears
  \<^verbatim>\<open>hlsRef\<close> and leaves the status as it was. Both release the instance
  that \<^verbatim>\<open>hlsRef\<close> held, and in every state the component can reach no live
  engine instance remains after either of them.
\<close>

theorem teardown_releases_engine:
  "status (disconnectStream s) = Disconnected \<and> hlsRef (disconnectStream s) = None \<and>
   status (cleanup s) = status s \<and> hlsRef (cleanup s) = None \<and>
   (hlsRef s = Some h \<longrightarrow>
      \<not> live (engines (disconnectStream s)) h \<and> \<not> live (engines (cleanup s)) h) \<and>
   (reachable b s \<longrightarrow> liveEngines (disconnectStream s) = [] \<and> liveEngines (cleanup s) = [])"
proof -
  have "liveEngines (disconnectStream s) = [] \<and> liveEngines (cleanup s) = []" if "reachable b s"
    using owned_disconnectStream [OF reachable_owned [OF that]]
      owned_cleanup [OF reachable_owned [OF that]]
    by (simp add: owned_no_ref)
  moreover have "status (disconnectStream s) = Disconnected \<and> hlsRef (disconnectStream s) = None"
    by (cases "videoRef s"; cases "hlsRef s") (simp_all add: disconnectStream_def)
  moreover have "status (cleanup s) = status s \<and> hlsRef (cleanup s) = None"
    by (cases "hlsRef s") (simp_all add: cleanup_def)
  moreover have "\<not> live (engines (disconnectStream s)) h \<and> \<not> live (engines (cleanup s)) h"
    if "hlsRef s = Some h"
    using that by (cases "videoRef s") (simp_all add: disconnectStream_def cleanup_def live_released)
  ultimately show ?thesis
    by blast
qed

theorem teardown_releases_engine_witness:
  "hlsRef (watching chrome) = Some 0 \<and> reachable chrome (watching chrome) \<and>
   live (engines (watching chrome)) 0 \<and>
   status (disconnectStream (watching chrome)) = Disconnected \<and>
   hlsRef (disconnectStream (watching chrome)) = None \<and>
   \<not> live (engines (disconnectStream (watching chrome))) 0 \<and>
   \<not> live (engines (cleanup (watching chrome))) 0 \<and>
   liveEngines (disconnectStream (watching chrome)) = [] \<and>
   liveEngines (cleanup (watching chrome)) = []"
  using teardown_releases_engine [of "watching chrome" 0 chrome] reachable_watching
  by (simp add: watching_chrome live_def)

section \<open>Connecting\<close>

text \<open>
  \<^verbatim>\<open>connectStream\<close> does not look at the URL: after the selection of an
  event whose URL is empty, the Connect button moves the status to connecting
  and creates an engine instance. And with a URL and a bound element, in a
  browser with neither hls.js nor native HLS, connect from disconnected ends
  in error.
\<close>

theorem connect_ignores_url_and_may_end_in_error:
  "streamUrl (unlisted chrome) = Some [] \<and> status (unlisted chrome) = Disconnected \<and>
   hlsRef (unlisted chrome) = None \<and> enabled ClickConnect (unlisted chrome) \<and>
   status (connectStream chrome (unlisted chrome)) = Connecting \<and>
   hlsRef (connectStream chrome (unlisted chrome)) = Some 0 \<and>
   streamUrl (disconnectStream (selected legacy)) = Some ''https://x/playlist.m3u8'' \<and>
   videoRef (disconnectStream (selected legacy)) = Some 0 \<and>
   status (disconnectStream (selected legacy)) = Disconnected \<and>
   status (connectStream legacy (disconnectStream (selected legacy))) = Error"
  by (simp add: unlisted_def selected_def ops aapl_def chrome_def legacy_def)

text \<open>
  C3 (amended). The auto-connect effect has the precondition that the stream
  URL is non-empty: with an absent (empty or undefined) URL it makes no state
  transition at all, and with an event and a non-empty URL it is one
  invocation of connect. With a non-empty URL and a bound rendering surface,
  in a browser where hls.js is supported or the surface plays HLS natively,
  connect from disconnected (or error) moves the status to connecting and
  clears the error descriptor.
\<close>

theorem connect_precondition:
  "(\<not> truthy (streamUrl s) \<longrightarrow> autoConnect b s = s) \<and>
   (event s \<noteq> None \<and> truthy (streamUrl s) \<longrightarrow> autoConnect b s = connectStream b s) \<and>
   (truthy (streamUrl s) \<and> videoRef s \<noteq> None \<and>
    (status s = Disconnected \<or> status s = Error) \<and>
    (isSupported b \<or> canPlayType b ''application/vnd.apple.mpegurl'' \<noteq> []) \<longrightarrow>
      status (connectStream b s) = Connecting \<and> error (connectStream b s) = None)"
  by (cases "videoRef s")
    (simp_all add: autoConnect_def connectStream_def Let_def logCall_def updVideo_def setSrc_def)

theorem connect_precondition_witness:
  "\<not> truthy (streamUrl (unlisted chrome)) \<and> autoConnect chrome (unlisted chrome) = unlisted chrome \<and>
   event (stopped chrome) \<noteq> None \<and> truthy (streamUrl (stopped chrome)) \<and>
   videoRef (stopped chrome) \<noteq> None \<and> isSupported chrome \<and>
   status (stopped chrome) = Disconnected \<and>
   status (autoConnect chrome (stopped chrome)) = Connecting \<and>
   error (connectStream chrome (stopped chrome)) = None"
proof -
  have u: "\<not> truthy (streamUrl (unlisted chrome))"
    by (simp add: unlisted_def ops chrome_def)
  have d: "event (stopped chrome) \<noteq> None" "truthy (streamUrl (stopped chrome))"
    "videoRef (stopped chrome) \<noteq> None" "status (stopped chrome) = Disconnected"
    by (simp_all add: stopped_chrome truthy_def)
  have c: "isSupported chrome"
    by (simp add: chrome_def)
  show ?thesis
    using u d c connect_precondition [of "unlisted chrome" chrome]
      connect_precondition [of "stopped chrome" chrome]
    by simp
qed

text \<open>
  C4. In every state the component can reach, at most one engine instance is
  live. Wherever \<^verbatim>\<open>connectStream\<close> is invoked, the prior instance has been
  released before: the Connect button exists only while the status is
  disconnected, and then no instance is live; the effect runs connect on the
  state its cleanup has left, and there no instance is live either.
\<close>

theorem single_live_engine:
  "reachable b s \<Longrightarrow>
   length (liveEngines s) \<le> 1 \<and>
   (enabled ClickConnect s \<longrightarrow> liveEngines s = []) \<and>
   liveEngines (cleanup (commit ev url s)) = []"
proof -
  assume "reachable b s"
  then have o: "owned s"
    by (rule reachable_owned)
  have "enabled ClickConnect s \<longrightarrow> liveEngines s = []"
    using o by (auto simp: owned_def liveEngines_empty)
  moreover have "liveEngines (cleanup (commit ev url s)) = []"
    using owned_cleanup [OF owned_commit [OF o]] by (simp add: owned_no_ref)
  ultimately show ?thesis
    using owned_at_most_one [OF o] by simp
qed

theorem single_live_engine_witness:
  "reachable chrome (watching chrome) \<and> liveEngines (watching chrome) = [0] \<and>
   length (liveEngines (watching chrome)) \<le> 1 \<and>
   liveEngines (cleanup (commit (Some aapl) (streamingUrl aapl) (watching chrome))) = [] \<and>
   reachable chrome (stopped chrome) \<and> enabled ClickConnect (stopped chrome) \<and>
   liveEngines (stopped chrome) = []"
proof -
  have e: "enabled ClickConnect (stopped chrome)"
    by (simp add: stopped_chrome)
  have l: "liveEngines (watching chrome) = [0]"
    by (simp add: watching_chrome liveEngines_def live_def)
  show ?thesis
    using e l reachable_watching reachable_stopped
      single_live_engine [OF reachable_watching, of "Some aapl" "streamingUrl aapl"]
      single_live_engine [OF reachable_stopped, of None None]
    by simp
qed

text \<open>
  C5. For every session in status connecting, a manifest-parsed event of an
  engine instance yields status connected, sets the playing flag, and makes
  exactly one call, \<^verbatim>\<open>play()\<close> on the video element attached to that instance;
  for a live instance in a state the component can reach, that element is the
  one \<^verbatim>\<open>videoRef\<close> holds.
\<close>

theorem manifest_parsed_connects:
  "status s = Connecting \<Longrightarrow> enabled (HlsManifestParsed h) s \<Longrightarrow>
   status (perform b (HlsManifestParsed h) s) = Connected \<and>
   isPlaying (perform b (HlsManifestParsed h) s) \<and>
   calls (perform b (HlsManifestParsed h) s) = calls s @ [Play (media (engines s ! h))] \<and>
   (reachable b s \<and> live (engines s) h \<longrightarrow> videoRef s = Some (media (engines s ! h)))"
  using reachable_attached [of b s]
  by (simp add: manifestParsed_def play_def logCall_def updVideo_def attached_def)

theorem manifest_parsed_connects_witness:
  "status (selected chrome) = Connecting \<and> enabled (HlsManifestParsed 0) (selected chrome) \<and>
   reachable chrome (selected chrome) \<and> live (engines (selected chrome)) 0 \<and>
   videoRef (selected chrome) = Some 0 \<and>
   status (perform chrome (HlsManifestParsed 0) (selected chrome)) = Connected \<and>
   isPlaying (perform chrome (HlsManifestParsed 0) (selected chrome)) \<and>
   calls (perform chrome (HlsManifestParsed 0) (selected chrome)) = calls (selected chrome) @ [Play 0]"
proof -
  have s: "status (selected chrome) = Connecting" "enabled (HlsManifestParsed 0) (selected chrome)"
    "live (engines (selected chrome)) 0" "media (engines (selected chrome) ! 0) = 0"
    by (simp_all add: selected_chrome live_def)
  show ?thesis
    using s reachable_selected [of chrome] manifest_parsed_connects [OF s(1) s(2), of chrome] by simp
qed

section \<open>The event list\<close>

text \<open>
  C6. For every fetch of the event list that fails (the request is rejected,
  the response is not 2xx, the body is not JSON, or the body is null), the
  list held before is left unchanged; the error is set and the loading flag
  is cleared.
\<close>

theorem failed_fetch_keeps_events:
  "failed f \<Longrightarrow>
   events (fetchEvents f s) = events s \<and> listError (fetchEvents f s) \<noteq> None \<and>
   \<not> loading (fetchEvents f s)"
  by (auto simp: failed_def fetchEvents_def Let_def split: fetched.splits body.splits)

theorem failed_fetch_keeps_events_witness:
  "failed serverError \<and> events (fetchEvents serverError oneEvent) = [aapl] \<and>
   listError (fetchEvents serverError oneEvent) \<noteq> None \<and>
   \<not> loading (fetchEvents serverError oneEvent)"
proof -
  have f: "failed serverError"
    by (simp add: failed_def serverError_def ok_def)
  show ?thesis
    using f failed_fetch_keeps_events [OF f, of oneEvent] by (simp add: oneEvent_def)
qed

section \<open>Volume\<close>

lemma volume_status: "status (snd (handleVolumeChange n s)) = status s"
  by (simp add: handleVolumeChange_def logCall_def Let_def split: option.split sum.split)

lemma volume_half:
  "videoRef s = Some v \<Longrightarrow> v < length (videos s) \<Longrightarrow>
   fst (handleVolumeChange (Num 0.5) s) = None \<and>
   vvolume (videos (snd (handleVolumeChange (Num 0.5) s)) ! v) = 0.5"
  by (simp add: handleVolumeChange_def assignVolume_def logCall_def Let_def)

lemma volume_rejected:
  "videoRef s = Some v \<Longrightarrow> \<not> inRange n \<Longrightarrow>
   fst (handleVolumeChange n s) \<noteq> None \<and> videos (snd (handleVolumeChange n s)) = videos s"
  by (cases n) (auto simp: handleVolumeChange_def assignVolume_def logCall_def Let_def inRange_def)

lemma assignVolume_range: "assignVolume n x = Inr y \<Longrightarrow> 0 \<le> vvolume y \<and> vvolume y \<le> 1"
  by (cases n) (auto simp: assignVolume_def split: if_splits)

lemma volume_videos:
  "videos (snd (handleVolumeChange n s)) = videos s \<or>
   (\<exists>v y. assignVolume n (videos s ! v) = Inr y \<and> videos (snd (handleVolumeChange n s)) = (videos s)[v := y])"
  by (auto simp: handleVolumeChange_def logCall_def Let_def split: option.split sum.split)

lemma volume_in_range:
  assumes "\<forall>x \<in> set (videos s). 0 \<le> vvolume x \<and> vvolume x \<le> 1"
    and "x \<in> set (videos (snd (handleVolumeChange n s)))"
  shows "0 \<le> vvolume x \<and> vvolume x \<le> 1"
proof -
  from volume_videos [of n s] show ?thesis
  proof
    assume "videos (snd (handleVolumeChange n s)) = videos s"
    with assms show ?thesis by simp
  next
    assume "\<exists>v y. assignVolume n (videos s ! v) = Inr y \<and>
      videos (snd (handleVolumeChange n s)) = (videos s)[v := y]"
    then obtain v y where y: "assignVolume n (videos s ! v) = Inr y"
      and u: "videos (snd (handleVolumeChange n s)) = (videos s)[v := y]"
      by blast
    from assms(2) u have "x = y \<or> x \<in> set (videos s)"
      using set_update_subset_insert [of "videos s" v y] by auto
    with assms(1) assignVolume_range [OF y] show ?thesis
      by blast
  qed
qed

text \<open>
  C7. \<^verbatim>\<open>handleVolumeChange\<close> never changes the status. With a bound video
  element, the value 0.5 sets the element's volume to exactly 0.5, and every
  value outside 0..1 (not a number and the infinities included) is rejected:
  the assignment throws and the element is left as it was. So the volume of
  no element leaves 0..1.
\<close>

theorem volume_change:
  "status (snd (handleVolumeChange n s)) = status s \<and>
   (videoRef s = Some v \<and> v < length (videos s) \<longrightarrow>
      (n = Num 0.5 \<longrightarrow>
         fst (handleVolumeChange n s) = None \<and>
         vvolume (videos (snd (handleVolumeChange n s)) ! v) = 0.5) \<and>
      (\<not> inRange n \<longrightarrow>
         fst (handleVolumeChange n s) \<noteq> None \<and> videos (snd (handleVolumeChange n s)) = videos s)) \<and>
   ((\<forall>x \<in> set (videos s). 0 \<le> vvolume x \<and> vvolume x \<le> 1) \<longrightarrow>
      (\<forall>x \<in> set (videos (snd (handleVolumeChange n s))). 0 \<le> vvolume x \<and> vvolume x \<le> 1))"
proof (intro conjI impI ballI)
  show "status (snd (handleVolumeChange n s)) = status s"
    by (rule volume_status)
next
  assume "videoRef s = Some v \<and> v < length (videos s)" and "n = Num 0.5"
  then show "fst (handleVolumeChange n s) = None"
    and "vvolume (videos (snd (handleVolumeChange n s)) ! v) = 0.5"
    using volume_half [of s v] by simp_all
next
  assume "videoRef s = Some v \<and> v < length (videos s)" and "\<not> inRange n"
  then show "fst (handleVolumeChange n s) \<noteq> None"
    and "videos (snd (handleVolumeChange n s)) = videos s"
    using volume_rejected [of s v n] by simp_all
next
  fix x
  assume "\<forall>x \<in> set (videos s). 0 \<le> vvolume x \<and> vvolume x \<le> 1"
    and "x \<in> set (videos (snd (handleVolumeChange n s)))"
  then show "0 \<le> vvolume x" and "vvolume x \<le> 1"
    using volume_in_range [of s x n] by simp_all
qed

theorem volume_change_witness:
  "videoRef (watching chrome) = Some 0 \<and> length (videos (watching chrome)) = 1 \<and>
   vvolume (videos (watching chrome) ! 0) = 1 \<and> \<not> inRange (Num 1.5) \<and>
   status (snd (handleVolumeChange (Num 0.5) (watching chrome))) = Connected \<and>
   fst (handleVolumeChange (Num 0.5) (watching chrome)) = None \<and>
   vvolume (videos (snd (handleVolumeChange (Num 0.5) (watching chrome))) ! 0) = 0.5 \<and>
   fst (handleVolumeChange (Num 1.5) (watching chrome)) \<noteq> None \<and>
   videos (snd (handleVolumeChange (Num 1.5) (watching chrome))) = videos (watching chrome) \<and>
   0 \<le> vvolume (videos (snd (handleVolumeChange (Num 1.5) (watching chrome))) ! 0) \<and>
   vvolume (videos (snd (handleVolumeChange (Num 1.5) (watching chrome))) ! 0) \<le> 1"
proof -
  have w: "videoRef (watching chrome) = Some 0 \<and> 0 < length (videos (watching chrome))"
    and i: "\<forall>x \<in> set (videos (watching chrome)). 0 \<le> vvolume x \<and> vvolume x \<le> 1"
    and c: "status (watching chrome) = Connected"
    and v: "length (videos (watching chrome)) = 1" "vvolume (videos (watching chrome) ! 0) = 1"
    by (simp_all add: watching_chrome newVideo_def)
  have r: "\<not> inRange (Num 1.5)"
    by (simp add: inRange_def)
  note half = volume_change [of "Num 0.5" "watching chrome" 0]
  note over = volume_change [of "Num 1.5" "watching chrome" 0]
  from half w c have "status (snd (handleVolumeChange (Num 0.5) (watching chrome))) = Connected"
    and "fst (handleVolumeChange (Num 0.5) (watching chrome)) = None"
    and "vvolume (videos (snd (handleVolumeChange (Num 0.5) (watching chrome))) ! 0) = 0.5"
    by simp_all
  moreover from over w r have s: "fst (handleVolumeChange (Num 1.5) (watching chrome)) \<noteq> None"
    "videos (snd (handleVolumeChange (Num 1.5) (watching chrome))) = videos (watching chrome)"
    by blast+
  moreover from over i
  have "\<forall>x \<in> set (videos (snd (handleVolumeChange (Num 1.5) (watching chrome)))).
      0 \<le> vvolume x \<and> vvolume x \<le> 1"
    by blast
  then have "0 \<le> vvolume (videos (snd (handleVolumeChange (Num 1.5) (watching chrome))) ! 0) \<and>
      vvolume (videos (snd (handleVolumeChange (Num 1.5) (watching chrome))) ! 0) \<le> 1"
    using s(2) v(1) by simp
  ultimately show ?thesis
    using w v r by blast
qed

section \<open>Connect without a surface, disconnect, unsupported browsers\<close>

text \<open>
  C8. Invoking connect while no video element is bound (\<^verbatim>\<open>videoRef.current\<close>
  is null) is a complete no-op: status, error descriptor, playing flag and
  engine reference are unchanged, no engine instance is created and no call
  is made.
\<close>

theorem connect_without_surface:
  "videoRef s = None \<Longrightarrow> connectStream b s = s"
  by (simp add: connectStream_def)

theorem connect_without_surface_witness:
  "videoRef initial = None \<and> connectStream chrome initial = initial"
proof -
  have v: "videoRef initial = None"
    by (simp add: initial_def)
  show ?thesis
    using v connect_without_surface [OF v, of chrome] by simp
qed

text \<open>
  C9. From every state (so from each of the four statuses)
  \<^verbatim>\<open>disconnectStream\<close> produces status disconnected, playing flag false and
  error descriptor null, and running it twice in succession yields the same
  state as running it once.
\<close>

theorem disconnect_idempotent:
  "status (disconnectStream s) = Disconnected \<and> \<not> isPlaying (disconnectStream s) \<and>
   error (disconnectStream s) = None \<and>
   state (disconnectStream (disconnectStream s)) = state (disconnectStream s)"
proof (cases "videoRef s")
  case None
  then show ?thesis
    by (cases "hlsRef s")
      (simp_all add: disconnectStream_def state_def destroy_def logCall_def Let_def)
next
  case (Some v)
  then show ?thesis
    by (cases "v < length (videos s)"; cases "hlsRef s")
      (simp_all add: disconnectStream_def state_def setSrc_def pause_def destroy_def logCall_def
        updVideo_def Let_def list_update_beyond)
qed

text \<open>
  C10. With a bound video element, if hls.js is unsupported and the element
  cannot play the HLS media type natively, connect sets the status to error
  with the descriptor "HLS is not supported in this browser", creates no
  engine instance and makes no call.
\<close>

theorem connect_unsupported:
  "videoRef s = Some v \<Longrightarrow> \<not> isSupported b \<Longrightarrow>
   canPlayType b ''application/vnd.apple.mpegurl'' = [] \<Longrightarrow>
   status (connectStream b s) = Error \<and>
   error (connectStream b s) = Some ''HLS is not supported in this browser'' \<and>
   engines (connectStream b s) = engines s \<and> hlsRef (connectStream b s) = hlsRef s \<and>
   calls (connectStream b s) = calls s"
  by (simp add: connectStream_def)

theorem connect_unsupported_witness:
  "videoRef (unlisted legacy) = Some 0 \<and> status (unlisted legacy) = Disconnected \<and>
   \<not> isSupported legacy \<and> canPlayType legacy ''application/vnd.apple.mpegurl'' = [] \<and>
   status (connectStream legacy (unlisted legacy)) = Error \<and>
   error (connectStream legacy (unlisted legacy)) = Some ''HLS is not supported in this browser'' \<and>
   engines (connectStream legacy (unlisted legacy)) = []"
proof -
  have u: "videoRef (unlisted legacy) = Some 0" "status (unlisted legacy) = Disconnected"
    "engines (unlisted legacy) = []"
    by (simp_all add: unlisted_def ops)
  have l: "\<not> isSupported legacy" "canPlayType legacy ''application/vnd.apple.mpegurl'' = []"
    by (simp_all add: legacy_def)
  show ?thesis
    using u l connect_unsupported [OF u(1) l, of] by simp
qed

end
